theory Spec2Isabelle
  imports Main
begin

section \<open>The internal Paystack webhook of Avenue Fashion\<close>

text \<open>
  A shallow embedding of \<^verbatim>\<open>src/app/api/webhooks/internal/paystack/route.ts\<close>, the
  handler \<^verbatim>\<open>POST\<close>. The handler is one function with effects: it reads the
  process environment, the request, the database (orders and carts) and the clock, it
  writes orders and carts and calls the notification service, and each of these calls
  may throw. The model passes the database explicitly, returns the updated database,
  records every call to a collaborator in a log, and returns either the response or
  the exception that leaves the handler.
\<close>

subsection \<open>JSON values and the JavaScript operations applied to them\<close>

text \<open>
  What \<^verbatim>\<open>JSON.parse\<close> returns. An object is the list of its own properties (the
  keys are distinct, as in every JavaScript object). The handler tests numbers for
  truthiness only, so a number is represented by an integer, \<open>JNum 0\<close> for the
  falsy zero. A JavaScript value is a JSON value or \<^verbatim>\<open>undefined\<close> (\<open>None\<close>).
\<close>

datatype json =
    JNull
  | JBool bool
  | JNum int
  | JStr string
  | JArr "json list"
  | JObj "(string \<times> json) list"

type_synonym jsval = "json option"

datatype exn =
    SyntaxError
  | TypeError
  | ConnectError
  | QueryError
  | SaveError
  | NotificationError

text \<open>
  Property access \<^verbatim>\<open>v.k\<close>: a TypeError on \<^verbatim>\<open>undefined\<close> and \<^verbatim>\<open>null\<close>,
  the own property of an object, and \<^verbatim>\<open>undefined\<close> on every other value (the keys
  the handler reads, \<^verbatim>\<open>event\<close>, \<^verbatim>\<open>data\<close>, \<^verbatim>\<open>status\<close>, \<^verbatim>\<open>metadata\<close>,
  \<^verbatim>\<open>orderId\<close> and \<^verbatim>\<open>reference\<close>, are on no prototype).
\<close>

fun member :: "jsval \<Rightarrow> string \<Rightarrow> exn + jsval" where
  "member None k = Inl TypeError"
| "member (Some JNull) k = Inl TypeError"
| "member (Some (JObj kvs)) k = Inr (map_of kvs k)"
| "member (Some v) k = Inr None"

text \<open>Truthiness, as \<^verbatim>\<open>!orderId\<close> tests it.\<close>

fun truthy :: "jsval \<Rightarrow> bool" where
  "truthy None = False"
| "truthy (Some JNull) = False"
| "truthy (Some (JBool b)) = b"
| "truthy (Some (JNum n)) = (n \<noteq> 0)"
| "truthy (Some (JStr s)) = (s \<noteq> [])"
| "truthy (Some v) = True"

subsection \<open>Orders, carts and the database\<close>

record timeline_entry =
  title :: string
  description :: string
  e_status :: string
  timestamp :: nat

record payment =
  p_status :: string
  transactionId :: jsval

record order =
  orderId :: string
  user :: string
  payment :: payment
  status :: string
  timeline :: "timeline_entry list"

record cart =
  c_user :: string
  items :: "string list"

record db =
  orders :: "order list"
  carts :: "cart list"

subsection \<open>The request, the response and the collaborators\<close>

record request =
  body :: string
  x_internal_signature :: "string option"

text \<open>\<^verbatim>\<open>NextResponse.json(fields, { status })\<close>: the status code and the body's fields.\<close>

datatype response = Response nat "(string \<times> string) list"

text \<open>
  The parts of the platform the handler calls and the source does not hold:
  the environment variable \<^verbatim>\<open>AVENUE_FASHION_INTERNAL_SECRET\<close>, the hex digest of
  \<^verbatim>\<open>crypto.createHmac('sha256', key).update(msg)\<close>, \<^verbatim>\<open>JSON.parse\<close> (\<open>None\<close> when
  it throws its SyntaxError), and the meaning Mongoose gives to the filter
  \<^verbatim>\<open>{ orderId: v }\<close> on the \<^verbatim>\<open>orderId\<close> field of a document.
\<close>

record platform =
  internalSecret :: "string option"
  hmac_sha256_hex :: "string \<Rightarrow> string \<Rightarrow> string"
  json_parse :: "string \<Rightarrow> json option"
  order_filter :: "jsval \<Rightarrow> string \<Rightarrow> bool"

text \<open>
  What differs from one run to the next: the clock (\<^verbatim>\<open>new Date()\<close>) and which of
  the awaited calls throw.
\<close>

record world =
  now :: nat
  connectDB_fails :: bool
  order_findOne_fails :: bool
  order_save_fails :: bool
  notification_fails :: bool
  cart_findOne_fails :: bool
  cart_save_fails :: bool

text \<open>The calls to collaborators, in the order the handler makes them.\<close>

datatype effect =
    ConnectDB
  | OrderFindOne jsval
  | OrderSave order
  | SendNotification string string string string
  | CartFindOne string
  | CartSave cart

type_synonym 'a run = "(exn + 'a) \<times> db \<times> effect list"

subsection \<open>The state transition (lines 63 to 79)\<close>

text \<open>
  \<^verbatim>\<open>order.timeline.find(e => e.title === 'Order Confirmed')\<close> followed by the
  assignment to the entry found: the first entry with that title is set to
  \<^verbatim>\<open>completed\<close>, every other entry is left as it is.
\<close>

fun mark_confirmed :: "timeline_entry list \<Rightarrow> timeline_entry list" where
  "mark_confirmed [] = []"
| "mark_confirmed (e # es) =
     (if title e = ''Order Confirmed'' then e\<lparr>e_status := ''completed''\<rparr> # es
      else e # mark_confirmed es)"

definition processing_entry :: "nat \<Rightarrow> timeline_entry" where
  "processing_entry t =
     \<lparr>title = ''Processing'',
      description = ''We are preparing your items for shipment at the warehouse.'',
      e_status = ''current'',
      timestamp = t\<rparr>"

definition apply_payment :: "nat \<Rightarrow> jsval \<Rightarrow> order \<Rightarrow> order" where
  "apply_payment t reference order =
     order\<lparr>payment := (payment order)\<lparr>p_status := ''Completed'', transactionId := reference\<rparr>,
           status := ''Processing'',
           timeline := mark_confirmed (timeline order) @ [processing_entry t]\<rparr>"

subsection \<open>The side effects (lines 85 to 103)\<close>

definition payment_notification :: "order \<Rightarrow> effect" where
  "payment_notification order =
     SendNotification (user order)
       (''Payment Received! '' @ [CHR 0xF0, CHR 0x9F, CHR 0x92, CHR 0xB3])
       (''We've successfully received payment for your order #'' @ orderId order
          @ ''. It's now being processed.'')
       (''/me/orders/'' @ orderId order)"

definition sendNotificationToUser :: "world \<Rightarrow> order \<Rightarrow> db \<Rightarrow> effect list \<Rightarrow> unit run" where
  "sendNotificationToUser w order s log =
     (if notification_fails w then (Inl NotificationError, s, log @ [payment_notification order])
      else (Inr (), s, log @ [payment_notification order]))"

text \<open>
  \<^verbatim>\<open>Cart.findOne({ user: order.user })\<close>, and when a cart is found
  \<^verbatim>\<open>userCart.items = []; await userCart.save()\<close>. A throw of either call leaves
  the try block.
\<close>

definition clear_cart :: "world \<Rightarrow> order \<Rightarrow> db \<Rightarrow> effect list \<Rightarrow> unit run" where
  "clear_cart w order s log =
     (if cart_findOne_fails w then (Inl QueryError, s, log @ [CartFindOne (user order)])
      else
       (case List.extract (\<lambda>c. c_user c = user order) (carts s) of
          None \<Rightarrow> (Inr (), s, log @ [CartFindOne (user order)])
        | Some (before, userCart, after) \<Rightarrow>
            (let cleared = userCart\<lparr>items := []\<rparr>;
                 log' = log @ [CartFindOne (user order), CartSave cleared]
             in if cart_save_fails w then (Inl SaveError, s, log')
                else (Inr (), s\<lparr>carts := before @ cleared # after\<rparr>, log'))))"

text \<open>
  The notification sits in a try and catch of its own, whose handler only logs to the
  console: the cart is cleared next, whether the notification threw or not.
\<close>

definition side_effects :: "world \<Rightarrow> order \<Rightarrow> db \<Rightarrow> effect list \<Rightarrow> unit run" where
  "side_effects w order s log =
     (case sendNotificationToUser w order s log of
        (Inl notificationError, s', log') \<Rightarrow> clear_cart w order s' log'
      | (Inr u, s', log') \<Rightarrow> clear_cart w order s' log')"

subsection \<open>The try block (lines 42 to 105)\<close>

text \<open>
  The result \<open>Inr (Some r)\<close> is a \<^verbatim>\<open>return r\<close> inside the block, \<open>Inr None\<close> is
  reaching its end, \<open>Inl e\<close> is a throw that the \<^verbatim>\<open>catch\<close> receives.
  A \<^verbatim>\<open>save\<close> that throws has written nothing.
\<close>

definition ok :: response where
  "ok = Response 200 [(''status'', ''ok'')]"

definition process_charge :: "platform \<Rightarrow> world \<Rightarrow> jsval \<Rightarrow> jsval \<Rightarrow> db \<Rightarrow> response option run" where
  "process_charge sys w data metadata s =
     (if connectDB_fails w then (Inl ConnectError, s, [ConnectDB])
      else
       (case member metadata ''orderId'' of
          Inl e \<Rightarrow> (Inl e, s, [ConnectDB])
        | Inr orderId' \<Rightarrow>
            (if \<not> truthy orderId' then
               (Inr (Some (Response 400 [(''status'', ''error''), (''message'', ''Missing orderId'')])),
                s, [ConnectDB])
             else if order_findOne_fails w then
               (Inl QueryError, s, [ConnectDB, OrderFindOne orderId'])
             else
              (case List.extract (\<lambda>d. order_filter sys orderId' (orderId d)) (orders s) of
                 None \<Rightarrow>
                   (Inr (Some (Response 404
                      [(''status'', ''error''), (''message'', ''Order not found'')])),
                    s, [ConnectDB, OrderFindOne orderId'])
               | Some (before, order, after) \<Rightarrow>
                   (if p_status (payment order) = ''Completed'' then
                      (Inr (Some ok), s, [ConnectDB, OrderFindOne orderId'])
                    else
                     (case member data ''reference'' of
                        Inl e \<Rightarrow> (Inl e, s, [ConnectDB, OrderFindOne orderId'])
                      | Inr reference \<Rightarrow>
                          (let order' = apply_payment (now w) reference order;
                               log = [ConnectDB, OrderFindOne orderId', OrderSave order']
                           in if order_save_fails w then (Inl SaveError, s, log)
                              else
                               (case side_effects w order' (s\<lparr>orders := before @ order' # after\<rparr>)
                                       log of
                                  (Inl e, s', log') \<Rightarrow> (Inl e, s', log')
                                | (Inr u, s', log') \<Rightarrow> (Inr None, s', log')))))))))"

subsection \<open>The handler\<close>

text \<open>
  Lines 17 to 40 run outside the try block: an exception there leaves the handler.
  An exception of the try block becomes the response of the \<^verbatim>\<open>catch\<close>,
  \<open>internal_error\<close>.
\<close>

definition internal_error :: response where
  "internal_error = Response 500 [(''message'', ''Internal server error while updating order.'')]"

definition POST :: "platform \<Rightarrow> world \<Rightarrow> request \<Rightarrow> db \<Rightarrow> response run" where
  "POST sys w req s =
     (case internalSecret sys of
        None \<Rightarrow> (Inr (Response 500 [(''message'', ''Server configuration error.'')]), s, [])
      | Some secret \<Rightarrow>
          (if secret = [] then
             (Inr (Response 500 [(''message'', ''Server configuration error.'')]), s, [])
           else if Some (hmac_sha256_hex sys secret (body req)) \<noteq> x_internal_signature req then
             (Inr (Response 403 [(''message'', ''Forbidden: Invalid signature.'')]), s, [])
           else
            (case json_parse sys (body req) of
               None \<Rightarrow> (Inl SyntaxError, s, [])
             | Some event \<Rightarrow>
                 (case member (Some event) ''event'' of
                    Inl e \<Rightarrow> (Inl e, s, [])
                  | Inr kind \<Rightarrow>
                      (if kind = Some (JStr ''charge.success'') then
                         (case member (Some event) ''data'' of
                            Inl e \<Rightarrow> (Inl e, s, [])
                          | Inr data \<Rightarrow>
                              (case member data ''status'' of
                                 Inl e \<Rightarrow> (Inl e, s, [])
                               | Inr status' \<Rightarrow>
                                   (case member data ''metadata'' of
                                      Inl e \<Rightarrow> (Inl e, s, [])
                                    | Inr metadata \<Rightarrow>
                                        (if status' = Some (JStr ''success'') then
                                           (case process_charge sys w data metadata s of
                                              (Inl e, s', log) \<Rightarrow> (Inr internal_error, s', log)
                                            | (Inr (Some r), s', log) \<Rightarrow> (Inr r, s', log)
                                            | (Inr None, s', log) \<Rightarrow> (Inr ok, s', log))
                                         else (Inr ok, s, [])))))
                       else (Inr ok, s, []))))))"

section \<open>Vocabulary of the properties\<close>

text \<open>
  A request is correctly signed when the secret is configured and the header
  \<^verbatim>\<open>x-internal-signature\<close> carries the hex digest of the raw body under it.
\<close>

definition authentic :: "platform \<Rightarrow> request \<Rightarrow> bool" where
  "authentic sys req =
     (case internalSecret sys of
        None \<Rightarrow> False
      | Some secret \<Rightarrow>
          secret \<noteq> [] \<and> x_internal_signature req = Some (hmac_sha256_hex sys secret (body req)))"

text \<open>
  A correctly signed request whose body parses to an event of kind
  \<^verbatim>\<open>charge.success\<close> with \<^verbatim>\<open>data.status\<close> equal to \<^verbatim>\<open>success\<close>; \<open>data\<close> and
  \<open>metadata\<close> are the values of \<^verbatim>\<open>event.data\<close> and \<^verbatim>\<open>event.data.metadata\<close>.
\<close>

definition charge_succeeded :: "platform \<Rightarrow> request \<Rightarrow> jsval \<Rightarrow> jsval \<Rightarrow> bool" where
  "charge_succeeded sys req data metadata =
     (authentic sys req \<and>
      (case json_parse sys (body req) of
         None \<Rightarrow> False
       | Some event \<Rightarrow>
           member (Some event) ''event'' = Inr (Some (JStr ''charge.success'')) \<and>
           member (Some event) ''data'' = Inr data \<and>
           member data ''status'' = Inr (Some (JStr ''success'')) \<and>
           member data ''metadata'' = Inr metadata))"

text \<open>The entries of a timeline whose status is \<^verbatim>\<open>current\<close>.\<close>

definition current_entries :: "timeline_entry list \<Rightarrow> timeline_entry list" where
  "current_entries es = filter (\<lambda>e. e_status e = ''current'') es"

text \<open>
  The timeline invariant: the last entry is titled \<^verbatim>\<open>Processing\<close> and is
  \<^verbatim>\<open>current\<close>, no entry before it is \<^verbatim>\<open>current\<close>, and every entry before it
  titled \<^verbatim>\<open>Order Confirmed\<close> is \<^verbatim>\<open>completed\<close>.
\<close>

definition timeline_settled :: "timeline_entry list \<Rightarrow> bool" where
  "timeline_settled es =
     (es \<noteq> [] \<and> title (last es) = ''Processing'' \<and> e_status (last es) = ''current'' \<and>
      (\<forall>e\<in>set (butlast es).
         e_status e \<noteq> ''current'' \<and>
         (title e = ''Order Confirmed'' \<longrightarrow> e_status e = ''completed'')))"

text \<open>The entries of a timeline other than the first one titled \<^verbatim>\<open>Order Confirmed\<close>.\<close>

fun bystanders :: "timeline_entry list \<Rightarrow> timeline_entry list" where
  "bystanders [] = []"
| "bystanders (e # es) = (if title e = ''Order Confirmed'' then es else e # bystanders es)"

section \<open>A sample deployment\<close>

text \<open>
  Concrete values on which the handler is run below: a secret, a keyed digest and a
  parser that stand in for the platform's (the handler only compares digests and reads
  the parsed value), a filter that selects the order whose \<^verbatim>\<open>orderId\<close> is the
  string asked for, request bodies, and a database with one unpaid order and the cart
  of its user.
\<close>

definition paid_body :: string where
  \<open>paid_body = ''{"event":"charge.success","data":{"status":"success","reference":"TXN1","metadata":{"orderId":"ORD1"}}}''\<close>

definition paid_event :: json where
  "paid_event =
     JObj [(''event'', JStr ''charge.success''),
           (''data'', JObj [(''status'', JStr ''success''), (''reference'', JStr ''TXN1''),
                            (''metadata'', JObj [(''orderId'', JStr ''ORD1'')])])]"

definition no_data_body :: string where
  \<open>no_data_body = ''{"event":"charge.success"}''\<close>

definition no_data_event :: json where
  "no_data_event = JObj [(''event'', JStr ''charge.success'')]"

definition no_metadata_body :: string where
  \<open>no_metadata_body = ''{"event":"charge.success","data":{"status":"success","reference":"TXN1"}}''\<close>

definition no_metadata_event :: json where
  "no_metadata_event =
     JObj [(''event'', JStr ''charge.success''),
           (''data'', JObj [(''status'', JStr ''success''), (''reference'', JStr ''TXN1'')])]"

definition no_orderId_body :: string where
  \<open>no_orderId_body = ''{"event":"charge.success","data":{"status":"success","reference":"TXN1","metadata":{}}}''\<close>

definition no_orderId_event :: json where
  "no_orderId_event =
     JObj [(''event'', JStr ''charge.success''),
           (''data'', JObj [(''status'', JStr ''success''), (''reference'', JStr ''TXN1''),
                            (''metadata'', JObj [])])]"

definition failed_body :: string where
  \<open>failed_body = ''{"event":"charge.failed","data":{"status":"failed"}}''\<close>

definition failed_event :: json where
  "failed_event =
     JObj [(''event'', JStr ''charge.failed''), (''data'', JObj [(''status'', JStr ''failed'')])]"

definition malformed_body :: string where
  \<open>malformed_body = ''{"event":''\<close>

definition sample_parse :: "string \<Rightarrow> json option" where
  "sample_parse =
     map_of [(paid_body, paid_event), (no_data_body, no_data_event),
             (no_metadata_body, no_metadata_event), (no_orderId_body, no_orderId_event),
             (failed_body, failed_event)]"

definition sample_digest :: "string \<Rightarrow> string \<Rightarrow> string" where
  "sample_digest key msg = rev msg @ key"

definition sample_platform :: platform where
  "sample_platform =
     \<lparr>internalSecret = Some ''s3cret'',
      hmac_sha256_hex = sample_digest,
      json_parse = sample_parse,
      order_filter = (\<lambda>v oid. v = Some (JStr oid))\<rparr>"

definition signed :: "string \<Rightarrow> request" where
  "signed b = \<lparr>body = b, x_internal_signature = Some (sample_digest ''s3cret'' b)\<rparr>"

definition forged :: request where
  "forged = \<lparr>body = paid_body, x_internal_signature = Some ''deadbeef''\<rparr>"

definition unsigned :: request where
  "unsigned = \<lparr>body = paid_body, x_internal_signature = None\<rparr>"

definition calm :: world where
  "calm =
     \<lparr>now = 1700000000, connectDB_fails = False, order_findOne_fails = False,
      order_save_fails = False, notification_fails = False, cart_findOne_fails = False,
      cart_save_fails = False\<rparr>"

definition placed :: timeline_entry where
  "placed =
     \<lparr>title = ''Order Placed'', description = ''Your order has been received.'',
      e_status = ''completed'', timestamp = 1699990000\<rparr>"

definition confirmed :: timeline_entry where
  "confirmed =
     \<lparr>title = ''Order Confirmed'', description = ''Awaiting payment.'',
      e_status = ''current'', timestamp = 1699990001\<rparr>"

definition unpaid_order :: order where
  "unpaid_order =
     \<lparr>orderId = ''ORD1'', user = ''u1'',
      payment = \<lparr>p_status = ''Pending'', transactionId = None\<rparr>,
      status = ''Confirmed'', timeline = [placed, confirmed]\<rparr>"

definition paid_order :: order where
  "paid_order = apply_payment 1700000000 (Some (JStr ''TXN1'')) unpaid_order"

definition awaiting :: timeline_entry where
  "awaiting =
     \<lparr>title = ''Awaiting Payment'', description = ''Waiting for the payment provider.'',
      e_status = ''current'', timestamp = 1699990002\<rparr>"

definition stale_order :: order where
  "stale_order = unpaid_order\<lparr>timeline := [placed, awaiting]\<rparr>"

definition stale_paid :: order where
  "stale_paid = apply_payment 1700000000 (Some (JStr ''TXN1'')) stale_order"

definition full_cart :: cart where
  "full_cart = \<lparr>c_user = ''u1'', items = [''dress'', ''scarf'']\<rparr>"

definition unpaid_db :: db where
  "unpaid_db = \<lparr>orders = [unpaid_order], carts = [full_cart]\<rparr>"

definition stale_db :: db where
  "stale_db = \<lparr>orders = [stale_order], carts = []\<rparr>"

definition paid_db :: db where
  "paid_db = \<lparr>orders = [paid_order], carts = [full_cart\<lparr>items := []\<rparr>]\<rparr>"

section \<open>Facts about the model\<close>

lemmas sample_defs = sample_platform_def signed_def sample_parse_def sample_digest_def calm_def
  paid_body_def no_data_body_def no_metadata_body_def no_orderId_body_def failed_body_def malformed_body_def
  paid_event_def no_data_event_def no_metadata_event_def no_orderId_event_def failed_event_def

lemmas handler_defs = POST_def process_charge_def side_effects_def sendNotificationToUser_def
  clear_cart_def Let_def

lemmas db_defs = unpaid_db_def paid_db_def unpaid_order_def paid_order_def full_cart_def
  placed_def confirmed_def apply_payment_def processing_entry_def
  extract_Nil_code extract_Cons_code

text \<open>
  A correctly signed \<^verbatim>\<open>charge.success\<close> event with status \<^verbatim>\<open>success\<close> reaches the
  try block, and the handler's answer is read off the result of the block.
\<close>

lemma POST_charge:
  assumes "charge_succeeded sys req data metadata"
  shows "POST sys w req s =
           (case process_charge sys w data metadata s of
              (Inl e, s', log) \<Rightarrow> (Inr internal_error, s', log)
            | (Inr (Some r), s', log) \<Rightarrow> (Inr r, s', log)
            | (Inr None, s', log) \<Rightarrow> (Inr ok, s', log))"
  using assms
  by (auto simp: charge_succeeded_def authentic_def POST_def split: option.splits)

lemma member_object:
  assumes "member v k = Inr (Some x)"
  obtains kvs where "v = Some (JObj kvs)"
  using assms by (cases "(v, k)" rule: member.cases) auto

lemma extract_replace:
  assumes "List.extract P xs = Some (before, x, after)" and "P x'"
  shows "List.extract P (before @ x' # after) = Some (before, x', after)"
  using assms by (auto simp: extract_Some_iff)

lemma side_effects_orders: "orders (fst (snd (side_effects w order s log))) = orders s"
  by (simp add: side_effects_def sendNotificationToUser_def clear_cart_def Let_def
           split: option.splits prod.splits)

lemma side_effects_result:
  "fst (side_effects w order s log) =
     (if cart_findOne_fails w then Inl QueryError
      else if cart_save_fails w \<and> (\<exists>c\<in>set (carts s). c_user c = user order) then Inl SaveError
      else Inr ())"
  by (auto simp: side_effects_def sendNotificationToUser_def clear_cart_def Let_def
                 extract_None_iff extract_Some_iff
           split: option.splits prod.splits)

lemma process_charge_completed:
  assumes "\<not> connectDB_fails w" and "member metadata ''orderId'' = Inr oid" and "truthy oid"
    and "\<not> order_findOne_fails w"
    and "List.extract (\<lambda>d. order_filter sys oid (orderId d)) (orders s) = Some (before, order, after)"
    and "p_status (payment order) = ''Completed''"
  shows "process_charge sys w data metadata s = (Inr (Some ok), s, [ConnectDB, OrderFindOne oid])"
  using assms by (simp add: process_charge_def)

lemma process_charge_applied:
  assumes "\<not> connectDB_fails w" and "member metadata ''orderId'' = Inr oid" and "truthy oid"
    and "\<not> order_findOne_fails w"
    and "List.extract (\<lambda>d. order_filter sys oid (orderId d)) (orders s) = Some (before, order, after)"
    and "p_status (payment order) \<noteq> ''Completed''"
    and "member data ''reference'' = Inr reference"
    and "\<not> order_save_fails w"
  shows "process_charge sys w data metadata s =
           (case side_effects w (apply_payment (now w) reference order)
                   (s\<lparr>orders := before @ apply_payment (now w) reference order # after\<rparr>)
                   [ConnectDB, OrderFindOne oid,
                    OrderSave (apply_payment (now w) reference order)] of
              (Inl e, s', log') \<Rightarrow> (Inl e, s', log')
            | (Inr u, s', log') \<Rightarrow> (Inr None, s', log'))"
  using assms by (simp add: process_charge_def Let_def)

lemma apply_payment_simps:
  "orderId (apply_payment t r order) = orderId order"
  "user (apply_payment t r order) = user order"
  "p_status (payment (apply_payment t r order)) = ''Completed''"
  "transactionId (payment (apply_payment t r order)) = r"
  "status (apply_payment t r order) = ''Processing''"
  "timeline (apply_payment t r order) = mark_confirmed (timeline order) @ [processing_entry t]"
  by (simp_all add: apply_payment_def)

lemma settled_after_ok:
  assumes cs: "charge_succeeded sys req data metadata"
    and oid: "member metadata ''orderId'' = Inr oid" "truthy oid"
    and run: "POST sys w req s = (Inr ok, s1, log1)"
  shows "\<exists>before order after.
           List.extract (\<lambda>d. order_filter sys oid (orderId d)) (orders s1) = Some (before, order, after) \<and>
           p_status (payment order) = ''Completed''"
proof -
  let ?P = "\<lambda>d. order_filter sys oid (orderId d)"
  note pc = run [unfolded POST_charge [OF cs]]
  have up: "\<not> connectDB_fails w" "\<not> order_findOne_fails w"
    using pc oid by (auto simp: process_charge_def ok_def internal_error_def split: if_splits)
  obtain before order after where found: "List.extract ?P (orders s) = Some (before, order, after)"
    using pc oid up
    by (cases "List.extract ?P (orders s)") (auto simp: process_charge_def ok_def split: if_splits)
  show ?thesis
  proof (cases "p_status (payment order) = ''Completed''")
    case True
    with pc oid up found have "s1 = s"
      by (simp add: process_charge_def)
    with found True show ?thesis by blast
  next
    case False
    obtain kvs where "data = Some (JObj kvs)"
      using cs by (auto simp: charge_succeeded_def split: option.splits elim: member_object)
    then have ref: "member data ''reference'' = Inr (map_of kvs ''reference'')" by simp
    let ?o = "apply_payment (now w) (map_of kvs ''reference'') order"
    let ?s = "s\<lparr>orders := before @ ?o # after\<rparr>"
    let ?log = "[ConnectDB, OrderFindOne oid, OrderSave ?o]"
    have saved: "\<not> order_save_fails w"
      using pc oid up found False ref
      by (auto simp: process_charge_def Let_def ok_def internal_error_def split: if_splits)
    have "s1 = fst (snd (side_effects w ?o ?s ?log))"
      using pc process_charge_applied [OF up(1) oid up(2) found False ref saved]
      by (auto split: prod.splits sum.splits)
    then have "orders s1 = before @ ?o # after"
      by (simp add: side_effects_orders)
    moreover have "?P ?o"
      using found by (simp add: extract_Some_iff apply_payment_simps)
    ultimately have "List.extract ?P (orders s1) = Some (before, ?o, after)"
      using extract_replace [OF found] by simp
    then show ?thesis by (auto simp: apply_payment_simps)
  qed
qed

lemma process_charge_settled:
  assumes "member metadata ''orderId'' = Inr oid" and "truthy oid"
    and "List.extract (\<lambda>d. order_filter sys oid (orderId d)) (orders s) = Some (before, order, after)"
    and "p_status (payment order) = ''Completed''"
  shows "fst (snd (process_charge sys w data metadata s)) = s"
    and "set (snd (snd (process_charge sys w data metadata s))) \<subseteq> {ConnectDB, OrderFindOne oid}"
  using assms by (simp_all add: process_charge_def)

lemma mark_confirmed_extract:
  "mark_confirmed es =
     (case List.extract (\<lambda>e. title e = ''Order Confirmed'') es of
        None \<Rightarrow> es
      | Some (xs, e, zs) \<Rightarrow> xs @ e\<lparr>e_status := ''completed''\<rparr> # zs)"
  by (induction es) (auto simp: extract_Nil_code extract_Cons_code split: option.splits)

lemma POST_applied:
  assumes cs: "charge_succeeded sys req data metadata"
    and oid: "member metadata ''orderId'' = Inr oid" "truthy oid"
    and ref: "member data ''reference'' = Inr reference"
    and up: "\<not> connectDB_fails w" "\<not> order_findOne_fails w"
    and found: "List.extract (\<lambda>d. order_filter sys oid (orderId d)) (orders s) = Some (before, order, after)"
    and unpaid: "p_status (payment order) \<noteq> ''Completed''"
    and saved: "\<not> order_save_fails w"
  shows "orders (fst (snd (POST sys w req s))) = before @ apply_payment (now w) reference order # after"
    and "fst (POST sys w req s) =
           (if cart_findOne_fails w \<or>
               cart_save_fails w \<and> (\<exists>c\<in>set (carts s). c_user c = user order)
            then Inr internal_error else Inr ok)"
proof -
  let ?o = "apply_payment (now w) reference order"
  let ?s = "s\<lparr>orders := before @ ?o # after\<rparr>"
  let ?log = "[ConnectDB, OrderFindOne oid, OrderSave ?o]"
  note pc = process_charge_applied [OF up(1) oid up(2) found unpaid ref saved]
  have post: "POST sys w req s =
      (case side_effects w ?o ?s ?log of
         (Inl e, s', log') \<Rightarrow> (Inr internal_error, s', log')
       | (Inr u, s', log') \<Rightarrow> (Inr ok, s', log'))"
    by (simp add: POST_charge [OF cs] pc split: prod.splits sum.splits)
  have "orders (fst (snd (POST sys w req s))) = orders (fst (snd (side_effects w ?o ?s ?log)))"
    by (simp add: post split: prod.splits sum.splits)
  then show "orders (fst (snd (POST sys w req s))) = before @ ?o # after"
    by (simp add: side_effects_orders)
  have "fst (POST sys w req s) =
          (case fst (side_effects w ?o ?s ?log) of Inl e \<Rightarrow> Inr internal_error | Inr u \<Rightarrow> Inr ok)"
    by (simp add: post split: prod.splits sum.splits)
  then show "fst (POST sys w req s) =
           (if cart_findOne_fails w \<or>
               cart_save_fails w \<and> (\<exists>c\<in>set (carts s). c_user c = user order)
            then Inr internal_error else Inr ok)"
    by (simp add: side_effects_result apply_payment_simps ok_def internal_error_def)
qed

lemma member_throws:
  "member v k = Inl e \<longleftrightarrow> (v = None \<or> v = Some JNull) \<and> e = TypeError"
  by (cases "(v, k)" rule: member.cases) auto

lemma member_defined:
  assumes "member v k = Inr x"
  obtains x' where "member v k' = Inr x'"
  using assms by (cases "(v, k)" rule: member.cases) auto

lemma settled_mark_confirmed:
  "(\<forall>e\<in>set (mark_confirmed es).
      e_status e \<noteq> ''current'' \<and> (title e = ''Order Confirmed'' \<longrightarrow> e_status e = ''completed'')) \<longleftrightarrow>
   (\<forall>e\<in>set (bystanders es).
      e_status e \<noteq> ''current'' \<and> (title e = ''Order Confirmed'' \<longrightarrow> e_status e = ''completed''))"
  by (induction es) auto

lemma length_mark_confirmed: "length (mark_confirmed es) = length es"
  by (induction es) auto

text \<open>Runs of the sample deployment.\<close>

lemma paid_request: "charge_succeeded sample_platform (signed paid_body)
    (Some (JObj [(''status'', JStr ''success''), (''reference'', JStr ''TXN1''),
                 (''metadata'', JObj [(''orderId'', JStr ''ORD1'')])]))
    (Some (JObj [(''orderId'', JStr ''ORD1'')]))"
  by (simp add: charge_succeeded_def authentic_def sample_defs)

lemma first_delivery:
  "POST sample_platform calm (signed paid_body) unpaid_db =
     (Inr ok, paid_db,
      [ConnectDB, OrderFindOne (Some (JStr ''ORD1'')), OrderSave paid_order,
       payment_notification paid_order, CartFindOne ''u1'',
       CartSave (full_cart\<lparr>items := []\<rparr>)])"
  by (simp add: handler_defs sample_defs db_defs)

lemma no_orderId_request: "charge_succeeded sample_platform (signed no_orderId_body)
    (Some (JObj [(''status'', JStr ''success''), (''reference'', JStr ''TXN1''),
                 (''metadata'', JObj [])]))
    (Some (JObj []))"
  by (simp add: charge_succeeded_def authentic_def sample_defs)

lemma no_metadata_request: "charge_succeeded sample_platform (signed no_metadata_body)
    (Some (JObj [(''status'', JStr ''success''), (''reference'', JStr ''TXN1'')])) None"
  by (simp add: charge_succeeded_def authentic_def sample_defs)

section \<open>Properties\<close>

text \<open>
  Claim C1. Take a correctly signed \<^verbatim>\<open>charge.success\<close> event with status
  \<^verbatim>\<open>success\<close> and a truthy \<^verbatim>\<open>metadata.orderId\<close>. When the database answers and
  the order found has \<^verbatim>\<open>payment.status\<close> equal to \<^verbatim>\<open>Completed\<close>, the handler
  answers 200 with \<^verbatim>\<open>{status: "ok"}\<close>, the database (orders with their timelines,
  and carts) is unchanged, and the only calls made are the connection and the order
  lookup: no save, no notification, no cart lookup or write. Hence a second delivery
  of an event that was answered with 200 leaves the database as the first delivery
  left it and again makes no call but the connection and the lookup, whatever the
  clock and the collaborators do the second time; it is answered with 200 when the
  database answers.
\<close>

theorem completed_payment_is_noop:
  assumes cs: "charge_succeeded sys req data metadata"
    and oid: "member metadata ''orderId'' = Inr oid" "truthy oid"
  shows "(\<not> connectDB_fails w \<and> \<not> order_findOne_fails w \<and>
          List.extract (\<lambda>d. order_filter sys oid (orderId d)) (orders s) = Some (before, order, after) \<and>
          p_status (payment order) = ''Completed''
          \<longrightarrow> POST sys w req s = (Inr ok, s, [ConnectDB, OrderFindOne oid])) \<and>
         (POST sys w req s = (Inr ok, s1, log1)
          \<longrightarrow> fst (snd (POST sys w2 req s1)) = s1 \<and>
              set (snd (snd (POST sys w2 req s1))) \<subseteq> {ConnectDB, OrderFindOne oid} \<and>
              (\<not> connectDB_fails w2 \<and> \<not> order_findOne_fails w2
               \<longrightarrow> POST sys w2 req s1 = (Inr ok, s1, [ConnectDB, OrderFindOne oid])))"
proof (intro conjI impI)
  assume "\<not> connectDB_fails w \<and> \<not> order_findOne_fails w \<and>
          List.extract (\<lambda>d. order_filter sys oid (orderId d)) (orders s) = Some (before, order, after) \<and>
          p_status (payment order) = ''Completed''"
  then show "POST sys w req s = (Inr ok, s, [ConnectDB, OrderFindOne oid])"
    using oid by (simp add: POST_charge [OF cs] process_charge_completed)
next
  assume run: "POST sys w req s = (Inr ok, s1, log1)"
  from settled_after_ok [OF cs oid run] obtain b o' a
    where found: "List.extract (\<lambda>d. order_filter sys oid (orderId d)) (orders s1) = Some (b, o', a)"
      and paid: "p_status (payment o') = ''Completed''"
    by blast
  obtain r s2 log2 where pc2: "process_charge sys w2 data metadata s1 = (r, s2, log2)"
    by (cases "process_charge sys w2 data metadata s1") auto
  from process_charge_settled [OF oid found paid, of w2 data]
  have settled: "s2 = s1" "set log2 \<subseteq> {ConnectDB, OrderFindOne oid}"
    by (simp_all add: pc2)
  show "fst (snd (POST sys w2 req s1)) = s1"
    using settled(1) by (simp add: POST_charge [OF cs] pc2 split: sum.splits option.splits)
  show "set (snd (snd (POST sys w2 req s1))) \<subseteq> {ConnectDB, OrderFindOne oid}"
    using settled(2) by (simp add: POST_charge [OF cs] pc2 split: sum.splits option.splits)
  assume "\<not> connectDB_fails w2 \<and> \<not> order_findOne_fails w2"
  then show "POST sys w2 req s1 = (Inr ok, s1, [ConnectDB, OrderFindOne oid])"
    using oid found paid by (simp add: POST_charge [OF cs] process_charge_completed)
qed

theorem completed_payment_is_noop_witness:
  "POST sample_platform calm (signed paid_body) paid_db =
     (Inr ok, paid_db, [ConnectDB, OrderFindOne (Some (JStr ''ORD1''))]) \<and>
   fst (snd (POST sample_platform calm (signed paid_body) unpaid_db)) = paid_db \<and>
   POST sample_platform (calm\<lparr>now := 1700000060\<rparr>) (signed paid_body) paid_db =
     (Inr ok, paid_db, [ConnectDB, OrderFindOne (Some (JStr ''ORD1''))])"
  using completed_payment_is_noop [OF paid_request, where oid = "Some (JStr ''ORD1'')"
          and w = calm and s = paid_db and before = "[]" and order = paid_order and after = "[]"]
        completed_payment_is_noop [OF paid_request, where oid = "Some (JStr ''ORD1'')"
          and w = calm and s = unpaid_db and ?s1.0 = paid_db
          and ?log1.0 = "[ConnectDB, OrderFindOne (Some (JStr ''ORD1'')), OrderSave paid_order,
             payment_notification paid_order, CartFindOne ''u1'',
             CartSave (full_cart\<lparr>items := []\<rparr>)]"
          and ?w2.0 = "calm\<lparr>now := 1700000060\<rparr>"]
        first_delivery
  by (simp add: sample_platform_def calm_def db_defs)

text \<open>
  Claim C2, as amended. Take a correctly signed \<^verbatim>\<open>charge.success\<close> event with
  status \<^verbatim>\<open>success\<close>, reference \<open>reference\<close> and a truthy \<^verbatim>\<open>metadata.orderId\<close>,
  and let the order found have a \<^verbatim>\<open>payment.status\<close> other than \<^verbatim>\<open>Completed\<close>.
  Provided \<^verbatim>\<open>order.save\<close> does not throw, the stored order has
  \<^verbatim>\<open>payment.status = Completed\<close>, \<^verbatim>\<open>payment.transactionId = reference\<close> and
  \<^verbatim>\<open>status = Processing\<close>; its timeline is the old one with the first entry titled
  \<^verbatim>\<open>Order Confirmed\<close>, if there is one, set to \<^verbatim>\<open>completed\<close>, followed by exactly
  one new entry: title \<^verbatim>\<open>Processing\<close>, the warehouse description, status
  \<^verbatim>\<open>current\<close> and the current time. The other orders are untouched. The answer is
  200 with \<^verbatim>\<open>{status: "ok"}\<close>, unless the cart lookup throws or the save of the
  user's cart throws: then it is the 500 of the \<^verbatim>\<open>catch\<close>.
\<close>

theorem payment_applied:
  assumes cs: "charge_succeeded sys req data metadata"
    and oid: "member metadata ''orderId'' = Inr oid" "truthy oid"
    and ref: "member data ''reference'' = Inr reference"
    and up: "\<not> connectDB_fails w" "\<not> order_findOne_fails w"
    and found: "List.extract (\<lambda>d. order_filter sys oid (orderId d)) (orders s) = Some (before, order, after)"
    and unpaid: "p_status (payment order) \<noteq> ''Completed''"
    and saved: "\<not> order_save_fails w"
  shows "\<exists>order'.
           fst (POST sys w req s) =
             (if cart_findOne_fails w \<or>
                 cart_save_fails w \<and> (\<exists>c\<in>set (carts s). c_user c = user order)
              then Inr internal_error else Inr ok) \<and>
           orders (fst (snd (POST sys w req s))) = before @ order' # after \<and>
           orderId order' = orderId order \<and> user order' = user order \<and>
           p_status (payment order') = ''Completed'' \<and>
           transactionId (payment order') = reference \<and>
           status order' = ''Processing'' \<and>
           timeline order' =
             (case List.extract (\<lambda>e. title e = ''Order Confirmed'') (timeline order) of
                None \<Rightarrow> timeline order
              | Some (xs, e, zs) \<Rightarrow> xs @ e\<lparr>e_status := ''completed''\<rparr> # zs)
             @ [\<lparr>title = ''Processing'',
                 description = ''We are preparing your items for shipment at the warehouse.'',
                 e_status = ''current'', timestamp = now w\<rparr>]"
proof (intro exI conjI)
  show "fst (POST sys w req s) =
          (if cart_findOne_fails w \<or>
              cart_save_fails w \<and> (\<exists>c\<in>set (carts s). c_user c = user order)
           then Inr internal_error else Inr ok)"
    by (rule POST_applied(2) [OF cs oid ref up found unpaid saved])
  show "orders (fst (snd (POST sys w req s))) = before @ apply_payment (now w) reference order # after"
    by (rule POST_applied(1) [OF cs oid ref up found unpaid saved])
qed (simp_all add: apply_payment_simps mark_confirmed_extract processing_entry_def)

theorem payment_applied_witness:
  "fst (POST sample_platform calm (signed paid_body) unpaid_db) = Inr ok \<and>
   orders (fst (snd (POST sample_platform calm (signed paid_body) unpaid_db))) =
     [\<lparr>orderId = ''ORD1'', user = ''u1'',
       payment = \<lparr>p_status = ''Completed'', transactionId = Some (JStr ''TXN1'')\<rparr>,
       status = ''Processing'',
       timeline =
         [placed, confirmed\<lparr>e_status := ''completed''\<rparr>,
          \<lparr>title = ''Processing'',
            description = ''We are preparing your items for shipment at the warehouse.'',
            e_status = ''current'', timestamp = 1700000000\<rparr>]\<rparr>]"
  using payment_applied [OF paid_request, where oid = "Some (JStr ''ORD1'')"
          and reference = "Some (JStr ''TXN1'')" and w = calm and s = unpaid_db
          and before = "[]" and order = unpaid_order and after = "[]"]
  by (auto simp: sample_platform_def calm_def db_defs intro!: order.equality payment.equality)

text \<open>
  The unpaid order \<^verbatim>\<open>ORD1\<close> and its signed event, when \<^verbatim>\<open>order.save\<close> throws: the
  answer is 500 and the stored order is still unpaid. When instead the cart lookup
  throws, the answer is 500 as well.
\<close>

theorem failed_save_counterexample:
  "orders unpaid_db = [unpaid_order] \<and> orderId unpaid_order = ''ORD1'' \<and>
   p_status (payment unpaid_order) = ''Pending'' \<and>
   POST sample_platform (calm\<lparr>order_save_fails := True\<rparr>) (signed paid_body) unpaid_db =
     (Inr (Response 500 [(''message'', ''Internal server error while updating order.'')]),
      unpaid_db, [ConnectDB, OrderFindOne (Some (JStr ''ORD1'')), OrderSave paid_order]) \<and>
   fst (POST sample_platform (calm\<lparr>cart_findOne_fails := True\<rparr>) (signed paid_body) unpaid_db) =
     Inr (Response 500 [(''message'', ''Internal server error while updating order.'')])"
  by (simp add: handler_defs sample_defs db_defs internal_error_def)

text \<open>
  Claim C3. When the secret is configured and the signature header is absent or differs
  from the hex HMAC-SHA256 of the raw body under that secret, the handler answers 403,
  leaves the database as it is and calls no collaborator: no order lookup, no order or
  cart write, no notification.
\<close>

theorem invalid_signature_rejected:
  assumes "internalSecret sys = Some secret" and "secret \<noteq> []"
    and "x_internal_signature req \<noteq> Some (hmac_sha256_hex sys secret (body req))"
  shows "POST sys w req s =
           (Inr (Response 403 [(''message'', ''Forbidden: Invalid signature.'')]), s, [])"
  using assms by (auto simp: POST_def)

theorem invalid_signature_rejected_witness:
  "POST sample_platform calm forged unpaid_db =
     (Inr (Response 403 [(''message'', ''Forbidden: Invalid signature.'')]), unpaid_db, []) \<and>
   POST sample_platform calm unsigned unpaid_db =
     (Inr (Response 403 [(''message'', ''Forbidden: Invalid signature.'')]), unpaid_db, [])"
  using invalid_signature_rejected [where sys = sample_platform and secret = "''s3cret''"
          and req = forged and w = calm and s = unpaid_db]
        invalid_signature_rejected [where sys = sample_platform and secret = "''s3cret''"
          and req = unsigned and w = calm and s = unpaid_db]
  by (simp add: sample_platform_def forged_def unsigned_def sample_digest_def paid_body_def)

text \<open>
  Claim C4, as amended. After the first successful application of a
  \<^verbatim>\<open>charge.success\<close> event (the order is found unpaid and \<^verbatim>\<open>order.save\<close> succeeds),
  the stored order's timeline is the timeline the order had before, with the first
  entry titled \<^verbatim>\<open>Order Confirmed\<close> (if there is one) set to \<^verbatim>\<open>completed\<close> and
  every other entry unchanged, followed by the new \<^verbatim>\<open>Processing\<close> entry with status
  \<^verbatim>\<open>current\<close>: it is one entry longer and the new entry is its last. The handler
  edits only that first \<^verbatim>\<open>Order Confirmed\<close> entry. So the invariant (the new entry
  is the only \<^verbatim>\<open>current\<close> one and every earlier \<^verbatim>\<open>Order Confirmed\<close> entry is
  \<^verbatim>\<open>completed\<close>) holds exactly when, in the timeline the order had before, no entry
  other than the first \<^verbatim>\<open>Order Confirmed\<close> one is \<^verbatim>\<open>current\<close> and every further
  \<^verbatim>\<open>Order Confirmed\<close> entry is already \<^verbatim>\<open>completed\<close>; it does not hold for every
  earlier content of the timeline.
\<close>

theorem timeline_after_payment:
  assumes cs: "charge_succeeded sys req data metadata"
    and oid: "member metadata ''orderId'' = Inr oid" "truthy oid"
    and ref: "member data ''reference'' = Inr reference"
    and up: "\<not> connectDB_fails w" "\<not> order_findOne_fails w"
    and found: "List.extract (\<lambda>d. order_filter sys oid (orderId d)) (orders s) = Some (before, order, after)"
    and unpaid: "p_status (payment order) \<noteq> ''Completed''"
    and saved: "\<not> order_save_fails w"
  shows "\<exists>order'.
           orders (fst (snd (POST sys w req s))) = before @ order' # after \<and>
           timeline order' =
             (case List.extract (\<lambda>e. title e = ''Order Confirmed'') (timeline order) of
                None \<Rightarrow> timeline order
              | Some (xs, e, zs) \<Rightarrow> xs @ e\<lparr>e_status := ''completed''\<rparr> # zs)
             @ [\<lparr>title = ''Processing'',
                 description = ''We are preparing your items for shipment at the warehouse.'',
                 e_status = ''current'', timestamp = now w\<rparr>] \<and>
           length (timeline order') = Suc (length (timeline order)) \<and>
           last (timeline order') =
             \<lparr>title = ''Processing'',
              description = ''We are preparing your items for shipment at the warehouse.'',
              e_status = ''current'', timestamp = now w\<rparr> \<and>
           (timeline_settled (timeline order') \<longleftrightarrow>
              (\<forall>e\<in>set (bystanders (timeline order)).
                 e_status e \<noteq> ''current'' \<and>
                 (title e = ''Order Confirmed'' \<longrightarrow> e_status e = ''completed'')))"
proof (intro exI conjI)
  let ?o = "apply_payment (now w) reference order"
  show "orders (fst (snd (POST sys w req s))) = before @ ?o # after"
    by (rule POST_applied(1) [OF cs oid ref up found unpaid saved])
  show "timeline ?o =
          (case List.extract (\<lambda>e. title e = ''Order Confirmed'') (timeline order) of
             None \<Rightarrow> timeline order
           | Some (xs, e, zs) \<Rightarrow> xs @ e\<lparr>e_status := ''completed''\<rparr> # zs)
          @ [\<lparr>title = ''Processing'',
              description = ''We are preparing your items for shipment at the warehouse.'',
              e_status = ''current'', timestamp = now w\<rparr>]"
    by (simp add: apply_payment_simps mark_confirmed_extract processing_entry_def)
  show "length (timeline ?o) = Suc (length (timeline order))"
    by (simp add: apply_payment_simps length_mark_confirmed)
  show "last (timeline ?o) =
          \<lparr>title = ''Processing'',
           description = ''We are preparing your items for shipment at the warehouse.'',
           e_status = ''current'', timestamp = now w\<rparr>"
    by (simp add: apply_payment_simps processing_entry_def)
  show "timeline_settled (timeline ?o) \<longleftrightarrow>
          (\<forall>e\<in>set (bystanders (timeline order)).
             e_status e \<noteq> ''current'' \<and>
             (title e = ''Order Confirmed'' \<longrightarrow> e_status e = ''completed''))"
    unfolding settled_mark_confirmed [symmetric]
    by (simp add: timeline_settled_def apply_payment_simps processing_entry_def)
qed

theorem timeline_after_payment_witness:
  "orders (fst (snd (POST sample_platform calm (signed paid_body) unpaid_db))) = [paid_order] \<and>
   timeline paid_order =
     [placed, confirmed\<lparr>e_status := ''completed''\<rparr>,
      \<lparr>title = ''Processing'',
        description = ''We are preparing your items for shipment at the warehouse.'',
        e_status = ''current'', timestamp = 1700000000\<rparr>] \<and>
   timeline_settled (timeline paid_order)"
  using timeline_after_payment [OF paid_request, where oid = "Some (JStr ''ORD1'')"
          and reference = "Some (JStr ''TXN1'')" and w = calm
          and s = unpaid_db and before = "[]" and order = unpaid_order and after = "[]"]
        first_delivery
  by (auto simp: sample_platform_def calm_def db_defs)

text \<open>
  An order whose only \<^verbatim>\<open>current\<close> entry is titled \<^verbatim>\<open>Awaiting Payment\<close>: after
  the payment is applied, that entry and the new one are both \<^verbatim>\<open>current\<close>.
\<close>

theorem stale_timeline_counterexample:
  "orders (fst (snd (POST sample_platform calm (signed paid_body) stale_db))) = [stale_paid] \<and>
   current_entries (timeline stale_paid) = [awaiting, processing_entry 1700000000] \<and>
   \<not> timeline_settled (timeline stale_paid)"
  by (simp add: handler_defs sample_defs db_defs stale_db_def stale_order_def stale_paid_def
        awaiting_def current_entries_def timeline_settled_def)

text \<open>
  Claim C5, as amended. For a correctly signed \<^verbatim>\<open>charge.success\<close> event with status
  \<^verbatim>\<open>success\<close> whose \<^verbatim>\<open>metadata.orderId\<close> cannot be read or is falsy (absent,
  empty, \<^verbatim>\<open>null\<close>, \<^verbatim>\<open>false\<close> or zero), the handler makes no order lookup and no
  write: the database is unchanged and the only call is the database connection,
  which precedes the test. The answer is 400 when the connection succeeds and
  \<^verbatim>\<open>metadata\<close> is there; when the connection throws, or \<^verbatim>\<open>metadata\<close> itself is
  absent or \<^verbatim>\<open>null\<close> (reading \<^verbatim>\<open>metadata.orderId\<close> then throws inside the try
  block), the answer is the 500 of the \<^verbatim>\<open>catch\<close>.
\<close>

theorem missing_orderId_rejected:
  assumes cs: "charge_succeeded sys req data metadata"
    and falsy: "\<forall>oid. member metadata ''orderId'' = Inr oid \<longrightarrow> \<not> truthy oid"
  shows "POST sys w req s =
           (Inr (if connectDB_fails w \<or> metadata = None \<or> metadata = Some JNull
                 then internal_error
                 else Response 400 [(''status'', ''error''), (''message'', ''Missing orderId'')]),
            s, [ConnectDB])"
proof (cases "member metadata ''orderId''")
  case (Inl e)
  then show ?thesis
    by (auto simp: POST_charge [OF cs] process_charge_def member_throws)
next
  case (Inr oid)
  then have "metadata \<noteq> None \<and> metadata \<noteq> Some JNull"
    by (cases metadata) auto
  moreover have "\<not> truthy oid" using falsy Inr by simp
  ultimately show ?thesis
    using Inr by (auto simp: POST_charge [OF cs] process_charge_def)
qed

theorem missing_orderId_rejected_witness:
  "POST sample_platform calm (signed no_orderId_body) unpaid_db =
     (Inr (Response 400 [(''status'', ''error''), (''message'', ''Missing orderId'')]),
      unpaid_db, [ConnectDB])"
  using missing_orderId_rejected [OF no_orderId_request, where w = calm and s = unpaid_db]
  by (simp add: calm_def)

text \<open>
  A signed event without \<^verbatim>\<open>metadata\<close>: its \<^verbatim>\<open>metadata.orderId\<close> is absent, and
  the answer is 500, not 400.
\<close>

theorem missing_metadata_counterexample:
  "charge_succeeded sample_platform (signed no_metadata_body)
     (Some (JObj [(''status'', JStr ''success''), (''reference'', JStr ''TXN1'')])) None \<and>
   member None ''orderId'' = Inl TypeError \<and>
   POST sample_platform calm (signed no_metadata_body) unpaid_db =
     (Inr (Response 500 [(''message'', ''Internal server error while updating order.'')]),
      unpaid_db, [ConnectDB])"
  by (simp add: no_metadata_request POST_charge [OF no_metadata_request] process_charge_def
        calm_def internal_error_def)

text \<open>
  Claim C6, as amended. For a correctly signed event (a parsed value on which
  \<^verbatim>\<open>event.event\<close> can be read) whose kind is not \<^verbatim>\<open>charge.success\<close>, or whose
  \<^verbatim>\<open>data\<close> is there and has a \<^verbatim>\<open>status\<close> other than \<^verbatim>\<open>success\<close>, the handler
  calls no collaborator, leaves the database unchanged and answers 200 with
  \<^verbatim>\<open>{status: "ok"}\<close>.
\<close>

theorem irrelevant_event_acknowledged:
  assumes "authentic sys req" and "json_parse sys (body req) = Some event"
    and "member (Some event) ''event'' = Inr kind"
    and "kind \<noteq> Some (JStr ''charge.success'') \<or>
         (\<exists>data status'. member (Some event) ''data'' = Inr data \<and>
            member data ''status'' = Inr status' \<and> status' \<noteq> Some (JStr ''success''))"
  shows "POST sys w req s = (Inr ok, s, [])"
proof (cases "kind = Some (JStr ''charge.success'')")
  case False
  with assms(1-3) show ?thesis
    by (auto simp: POST_def authentic_def split: option.splits)
next
  case True
  with assms(4) obtain data status' where d: "member (Some event) ''data'' = Inr data"
    and st: "member data ''status'' = Inr status'" "status' \<noteq> Some (JStr ''success'')"
    by blast
  from st(1) obtain metadata where "member data ''metadata'' = Inr metadata"
    by (rule member_defined)
  with True d st assms(1-3) show ?thesis
    by (auto simp: POST_def authentic_def split: option.splits)
qed

theorem irrelevant_event_acknowledged_witness:
  "POST sample_platform calm (signed failed_body) unpaid_db = (Inr ok, unpaid_db, [])"
  using irrelevant_event_acknowledged [where sys = sample_platform and req = "signed failed_body"
          and event = failed_event and kind = "Some (JStr ''charge.failed'')"
          and w = calm and s = unpaid_db]
  by (simp add: authentic_def sample_defs)

text \<open>
  A signed \<^verbatim>\<open>charge.success\<close> event without \<^verbatim>\<open>data\<close>: its nested status is not
  \<^verbatim>\<open>success\<close>, and the handler throws instead of answering 200.
\<close>

theorem missing_data_counterexample:
  "authentic sample_platform (signed no_data_body) \<and>
   json_parse sample_platform (body (signed no_data_body)) = Some no_data_event \<and>
   member (Some no_data_event) ''event'' = Inr (Some (JStr ''charge.success'')) \<and>
   member (Some no_data_event) ''data'' = Inr None \<and>
   POST sample_platform calm (signed no_data_body) unpaid_db = (Inl TypeError, unpaid_db, [])"
  by (simp add: authentic_def POST_def sample_defs)

text \<open>
  Claim C7, as amended. For a correctly signed request whose body \<^verbatim>\<open>JSON.parse\<close>
  rejects, the SyntaxError leaves the handler: line 34 is outside every try block, so
  the handler builds no response of its own. No collaborator is called and the
  database is unchanged.
\<close>

theorem malformed_body_throws:
  assumes "authentic sys req" and "json_parse sys (body req) = None"
  shows "POST sys w req s = (Inl SyntaxError, s, [])"
  using assms by (auto simp: POST_def authentic_def split: option.splits)

theorem malformed_body_throws_witness:
  "POST sample_platform (calm\<lparr>now := 1700000001\<rparr>) (signed malformed_body) paid_db =
     (Inl SyntaxError, paid_db, [])"
  using malformed_body_throws [where sys = sample_platform and req = "signed malformed_body"
          and w = "calm\<lparr>now := 1700000001\<rparr>" and s = paid_db]
  by (simp add: authentic_def sample_defs)

text \<open>
  A signed body that does not parse: the outcome is the exception, not a response
  with a client error status.
\<close>

theorem malformed_body_counterexample:
  "authentic sample_platform (signed malformed_body) \<and>
   json_parse sample_platform (body (signed malformed_body)) = None \<and>
   fst (POST sample_platform calm (signed malformed_body) unpaid_db) = Inl SyntaxError"
  by (simp add: authentic_def POST_def sample_defs)

text \<open>
  Claim C9. When the order is found unpaid and \<^verbatim>\<open>order.save\<close> succeeds, the stored
  order is the updated one, which differs from the order found, whatever happens
  next. The answer is 500 when the cart lookup throws or when the user has a cart and
  saving it throws, and 200 otherwise: it does not depend on whether the notification
  throws. So a 500 does not tell that the order is unchanged.
\<close>

theorem cart_failure_after_save:
  assumes cs: "charge_succeeded sys req data metadata"
    and oid: "member metadata ''orderId'' = Inr oid" "truthy oid"
    and ref: "member data ''reference'' = Inr reference"
    and up: "\<not> connectDB_fails w" "\<not> order_findOne_fails w"
    and found: "List.extract (\<lambda>d. order_filter sys oid (orderId d)) (orders s) = Some (before, order, after)"
    and unpaid: "p_status (payment order) \<noteq> ''Completed''"
    and saved: "\<not> order_save_fails w"
  shows "fst (POST sys w req s) =
           (if cart_findOne_fails w \<or>
               cart_save_fails w \<and> (\<exists>c\<in>set (carts s). c_user c = user order)
            then Inr internal_error else Inr ok) \<and>
         orders (fst (snd (POST sys w req s))) =
           before @ apply_payment (now w) reference order # after \<and>
         orders (fst (snd (POST sys w req s))) \<noteq> orders s"
proof (intro conjI)
  show "fst (POST sys w req s) =
           (if cart_findOne_fails w \<or>
               cart_save_fails w \<and> (\<exists>c\<in>set (carts s). c_user c = user order)
            then Inr internal_error else Inr ok)"
    by (rule POST_applied(2) [OF cs oid ref up found unpaid saved])
  show stored: "orders (fst (snd (POST sys w req s))) =
           before @ apply_payment (now w) reference order # after"
    by (rule POST_applied(1) [OF cs oid ref up found unpaid saved])
  have "orders s = before @ order # after"
    using found by (simp add: extract_Some_iff)
  moreover have "apply_payment (now w) reference order \<noteq> order"
    using unpaid apply_payment_simps(3) [of "now w" reference order] by auto
  ultimately show "orders (fst (snd (POST sys w req s))) \<noteq> orders s"
    by (simp add: stored)
qed

theorem cart_failure_after_save_witness:
  "fst (POST sample_platform (calm\<lparr>cart_save_fails := True\<rparr>) (signed paid_body) unpaid_db) =
     Inr (Response 500 [(''message'', ''Internal server error while updating order.'')]) \<and>
   orders (fst (snd (POST sample_platform (calm\<lparr>cart_save_fails := True\<rparr>) (signed paid_body) unpaid_db))) =
     [paid_order] \<and>
   fst (POST sample_platform (calm\<lparr>cart_findOne_fails := True\<rparr>) (signed paid_body) unpaid_db) =
     Inr (Response 500 [(''message'', ''Internal server error while updating order.'')]) \<and>
   fst (POST sample_platform (calm\<lparr>notification_fails := True\<rparr>) (signed paid_body) unpaid_db) =
     Inr ok"
  using cart_failure_after_save [OF paid_request, where oid = "Some (JStr ''ORD1'')"
          and reference = "Some (JStr ''TXN1'')" and w = "calm\<lparr>cart_save_fails := True\<rparr>"
          and s = unpaid_db and before = "[]" and order = unpaid_order and after = "[]"]
        cart_failure_after_save [OF paid_request, where oid = "Some (JStr ''ORD1'')"
          and reference = "Some (JStr ''TXN1'')" and w = "calm\<lparr>cart_findOne_fails := True\<rparr>"
          and s = unpaid_db and before = "[]" and order = unpaid_order and after = "[]"]
        cart_failure_after_save [OF paid_request, where oid = "Some (JStr ''ORD1'')"
          and reference = "Some (JStr ''TXN1'')" and w = "calm\<lparr>notification_fails := True\<rparr>"
          and s = unpaid_db and before = "[]" and order = unpaid_order and after = "[]"]
  by (simp add: sample_platform_def calm_def db_defs internal_error_def)

text \<open>
  Claim C10. For a correctly signed event of kind \<^verbatim>\<open>charge.success\<close> whose
  \<^verbatim>\<open>data\<close> is absent or \<^verbatim>\<open>null\<close>, the destructuring of \<^verbatim>\<open>event.data\<close> at line 38,
  before the try block, throws a TypeError that leaves the handler: there is no
  response, no collaborator is called and the database is unchanged.
\<close>

theorem missing_data_throws:
  assumes "authentic sys req" and "json_parse sys (body req) = Some event"
    and "member (Some event) ''event'' = Inr (Some (JStr ''charge.success''))"
    and "member (Some event) ''data'' = Inr data"
    and "data = None \<or> data = Some JNull"
  shows "POST sys w req s = (Inl TypeError, s, [])"
  using assms by (auto simp: POST_def authentic_def split: option.splits)

theorem missing_data_throws_witness:
  "POST sample_platform (calm\<lparr>connectDB_fails := True\<rparr>) (signed no_data_body) paid_db =
     (Inl TypeError, paid_db, [])"
  using missing_data_throws [where sys = sample_platform and req = "signed no_data_body"
          and event = no_data_event and data = None
          and w = "calm\<lparr>connectDB_fails := True\<rparr>" and s = paid_db]
  by (simp add: authentic_def sample_defs)

end
